theory Spec2Isabelle
  imports Complex_Main "HOL-Library.Sublist" "HOL-Library.Log_Nat"
begin

section \<open>String primitives of the host language\<close>

text \<open>
  A source string is a sequence of code units; a \<^typ>\<open>char\<close> stands for a code unit
  below 256 (ASCII and the Latin-1 supplement), so \<^const>\<open>length\<close> counts what
  \<^verbatim>\<open>substring\<close> counts. \<^verbatim>\<open>s.substring(0, n)\<close> is \<^term>\<open>take n s\<close> (it stops at the end
  of a shorter string) and \<^verbatim>\<open>s.slice(1)\<close> is \<^term>\<open>drop 1 s\<close>.
\<close>

definition toLowerCase_char :: "char \<Rightarrow> char" where
  "toLowerCase_char c =
     (let n = (of_char c :: nat)
      in if (65 \<le> n \<and> n \<le> 90) \<or> (192 \<le> n \<and> n \<le> 214) \<or> (216 \<le> n \<and> n \<le> 222)
         then char_of (n + 32) else c)"

definition toLowerCase :: "string \<Rightarrow> string" where
  "toLowerCase s = map toLowerCase_char s"

text \<open>
  \<^verbatim>\<open>toUpperCase\<close> on the same code units: the letters \<open>a\<close> to \<open>z\<close> and the
  Latin-1 letters 224 to 254 (but not the division sign 247) move down by 32, and the sharp
  s (223) becomes the two letters \<open>SS\<close>. The upper-case forms of the micro sign (181) and
  of the letter 255 are code units above 255, which a \<^typ>\<open>char\<close> cannot hold: the
  function leaves these two as they are, and \<open>upper_case_in_range\<close> says that a string
  holds neither of them.
\<close>

definition toUpperCase_char :: "char \<Rightarrow> string" where
  "toUpperCase_char c =
     (let n = (of_char c :: nat)
      in if (97 \<le> n \<and> n \<le> 122) \<or> (224 \<le> n \<and> n \<le> 246) \<or> (248 \<le> n \<and> n \<le> 254)
         then [char_of (n - 32)]
         else if n = 223 then ''SS''
         else [c])"

definition toUpperCase :: "string \<Rightarrow> string" where
  "toUpperCase s = concat (map toUpperCase_char s)"


text \<open>\<^verbatim>\<open>s.includes(t)\<close>: \<open>t\<close> occurs in \<open>s\<close> as a contiguous block.\<close>

fun js_includes :: "string \<Rightarrow> string \<Rightarrow> bool" where
  "js_includes [] t = (t = [])"
| "js_includes (c # cs) t = (prefix t (c # cs) \<or> js_includes cs t)"

text \<open>
  \<^verbatim>\<open>s.split(' ')\<close> cuts at every single space character and keeps empty pieces, so the
  empty string gives one empty piece; \<^verbatim>\<open>ws.join(' ')\<close> puts one space between
  neighbours.
\<close>

fun split_space :: "string \<Rightarrow> string list" where
  "split_space [] = [[]]"
| "split_space (c # cs) =
     (if c = CHR '' '' then [] # split_space cs
      else (case split_space cs of
              [] \<Rightarrow> [[c]]
            | w # ws \<Rightarrow> (c # w) # ws))"

fun join_space :: "string list \<Rightarrow> string" where
  "join_space [] = []"
| "join_space [w] = w"
| "join_space (w # v # ws) = w @ '' '' @ join_space (v # ws)"

text \<open>
  An array read \<^verbatim>\<open>xs[i]\<close> out of range gives \<^verbatim>\<open>undefined\<close>, which the string
  concatenation that follows renders as the text \<open>undefined\<close>.
\<close>

definition array_read :: "string list \<Rightarrow> int \<Rightarrow> string" where
  "array_read xs i = (if 0 \<le> i \<and> i < int (length xs) then xs ! nat i else ''undefined'')"


section \<open>Numbers of the host language\<close>

text \<open>
  A number is an IEEE 754 double. The ones that occur here are finite and not negative;
  such a double is \<open>significand * 2 ^ exponent\<close> with a significand below \<open>2 ^ 53\<close> and
  an exponent from \<open>-1074\<close> to \<open>971\<close>.
\<close>

record double =
  significand :: nat
  exponent :: int



text \<open>
  \<open>round_half_even M s\<close> is \<open>M / 2 ^ s\<close> rounded to the nearest integer, a tie going to
  the even neighbour. \<open>double_round M e\<close> is the double nearest to \<open>M * 2 ^ e\<close>: the
  significand keeps its 53 leading bits, fewer where the result is subnormal. A product is
  the exact product rounded once. Overflow to infinity is left out: the products formed
  here are below 3.
\<close>

definition round_half_even :: "nat \<Rightarrow> nat \<Rightarrow> nat" where
  "round_half_even M s =
     (if s = 0 then M
      else (let q = M div 2 ^ s; r = M mod 2 ^ s; h = 2 ^ (s - 1)
            in if r < h then q
               else if h < r then q + 1
               else if even q then q else q + 1))"

definition double_round :: "nat \<Rightarrow> int \<Rightarrow> double" where
  "double_round M e =
     (let s = nat (max (bitlen (int M) - 53) (- 1074 - e))
      in \<lparr>significand = round_half_even M s, exponent = e + int s\<rparr>)"

definition double_mult :: "double \<Rightarrow> double \<Rightarrow> double" where
  "double_mult a b = double_round (significand a * significand b) (exponent a + exponent b)"

text \<open>The length of an array as a number, and \<^verbatim>\<open>Math.floor\<close>.\<close>

definition double_of_nat :: "nat \<Rightarrow> double" where
  "double_of_nat n = \<lparr>significand = n, exponent = 0\<rparr>"

definition double_floor :: "double \<Rightarrow> int" where
  "double_floor d =
     (if 0 \<le> exponent d then int (significand d) * 2 ^ nat (exponent d)
      else int (significand d) div 2 ^ nat (- exponent d))"


section \<open>Data model\<close>

datatype model_size = E2B | E4B

text \<open>
  An optional property of an object literal is absent, present with the value
  \<^verbatim>\<open>undefined\<close>, or present with a value; object spread copies every present property.
\<close>

datatype 'a property = Absent | Undefined | Value 'a

record Gemma3nConfig =
  modelSize :: model_size
  maxTokens :: "real property"
  temperature :: "real property"
  topK :: "real property"
  quantized :: "bool property"

text \<open>
  The generator handle is the object \<^verbatim>\<open>{ platform, generateText }\<close>. Its second field is
  always \<^verbatim>\<open>generateWithNativeModel\<close> bound to the service that owns the handle, so the
  handle is determined by its platform tag.
\<close>

record text_generator =
  platform :: string

record Gemma3nService =
  textGenerator :: "text_generator option"
  isModelLoaded :: bool
  config :: Gemma3nConfig

text \<open>Every failure of the service is a plain \<^verbatim>\<open>Error\<close> carrying a message.\<close>

datatype error = Error string

record generate_options =
  opt_maxTokens :: "real property"
  opt_temperature :: "real property"
  opt_topK :: "real property"
  opt_stream :: "bool property"

record chat_message =
  role :: string
  content :: string

datatype audio_task = transcribe | translate

record audio_options =
  targetLanguage :: "string property"

record model_info =
  isLoaded :: bool
  info_modelSize :: model_size
  info_config :: Gemma3nConfig


section \<open>Ambient environment\<close>

text \<open>
  What \<^verbatim>\<open>getPlatform\<close> inspects: whether the Hermes marker is set on the global object,
  the navigator (if any) with its user agent (if any), and whether \<^verbatim>\<open>window\<close> and
  \<^verbatim>\<open>document\<close> are defined. The three steps of loading that the \<^verbatim>\<open>try\<close> block of
  \<^verbatim>\<open>initializeModel\<close> guards may throw; \<open>throws\<close> gives, for each step, the thrown value
  as the text it is rendered to, or \<open>None\<close> when the step goes through. Logging and the
  passing of time are not part of the model.
\<close>

datatype init_step = PlatformResolution | PlatformDispatch | DelaySimulation

record js_navigator =
  userAgent :: "string option"

record environment =
  HermesInternal :: bool
  navigator :: "js_navigator option"
  window :: bool
  document :: bool
  throws :: "init_step \<Rightarrow> string option"

definition getPlatform :: "environment \<Rightarrow> string" where
  "getPlatform env =
     (if HermesInternal env then
        (case navigator env of
           Some nav \<Rightarrow>
             (let ua = (case userAgent nav of Some u \<Rightarrow> u | None \<Rightarrow> '''')
              in if js_includes ua ''iPhone'' \<or> js_includes ua ''iPad'' then ''ios''
                 else if js_includes ua ''Android'' then ''android''
                 else ''ios'')
         | None \<Rightarrow> ''ios'')
      else if window env \<and> document env then ''web''
      else ''web'')"


section \<open>The service\<close>

definition default_constructor_config :: Gemma3nConfig where
  "default_constructor_config =
     \<lparr>modelSize = E2B, maxTokens = Absent, temperature = Absent, topK = Absent,
      quantized = Absent\<rparr>"

text \<open>\<^verbatim>\<open>{ d, ...c }\<close> on one property: a present property of \<open>c\<close> replaces the default.\<close>

definition spread :: "'a property \<Rightarrow> 'a property \<Rightarrow> 'a property" where
  "spread d c = (case c of Absent \<Rightarrow> d | _ \<Rightarrow> c)"

definition constructor :: "Gemma3nConfig option \<Rightarrow> Gemma3nService" where
  "constructor arg =
     (let c = (case arg of None \<Rightarrow> default_constructor_config | Some c \<Rightarrow> c)
      in \<lparr>textGenerator = None,
          isModelLoaded = False,
          config = \<lparr>modelSize = modelSize c,
                    maxTokens = spread (Value 512) (maxTokens c),
                    temperature = spread (Value 0.7) (temperature c),
                    topK = spread (Value 50) (topK c),
                    quantized = spread (Value True) (quantized c)\<rparr>\<rparr>)"

text \<open>
  A method is a function from the service before the call to the outcome (an error or
  the returned value) and the service after the call.
\<close>

definition platform_initializer ::
  "string \<Rightarrow> environment \<Rightarrow> Gemma3nService \<Rightarrow> (string + unit) \<times> Gemma3nService" where
  "platform_initializer tag env s =
     (case throws env PlatformDispatch of
        Some e \<Rightarrow> (Inl e, s)
      | None \<Rightarrow>
          (case throws env DelaySimulation of
             Some e \<Rightarrow> (Inl e, s)
           | None \<Rightarrow> (Inr (), s\<lparr>textGenerator := Some \<lparr>platform = tag\<rparr>\<rparr>)))"

definition initializeIOSModel ::
  "environment \<Rightarrow> Gemma3nService \<Rightarrow> (string + unit) \<times> Gemma3nService" where
  "initializeIOSModel = platform_initializer ''ios''"

definition initializeAndroidModel ::
  "environment \<Rightarrow> Gemma3nService \<Rightarrow> (string + unit) \<times> Gemma3nService" where
  "initializeAndroidModel = platform_initializer ''android''"

definition initializeWebModel ::
  "environment \<Rightarrow> Gemma3nService \<Rightarrow> (string + unit) \<times> Gemma3nService" where
  "initializeWebModel = platform_initializer ''web''"

definition initialization_error :: "string \<Rightarrow> error" where
  "initialization_error e = Error (''Failed to initialize Gemma 3n: '' @ e)"

definition initializeModel ::
  "environment \<Rightarrow> Gemma3nService \<Rightarrow> (error + unit) \<times> Gemma3nService" where
  "initializeModel env s =
     (case throws env PlatformResolution of
        Some e \<Rightarrow> (Inl (initialization_error e), s)
      | None \<Rightarrow>
          (let p = getPlatform env;
               (r, s') = (if p = ''ios'' then initializeIOSModel env s
                          else if p = ''android'' then initializeAndroidModel env s
                          else initializeWebModel env s)
           in case r of
                Inl e \<Rightarrow> (Inl (initialization_error e), s')
              | Inr _ \<Rightarrow> (Inr (), s'\<lparr>isModelLoaded := True\<rparr>)))"

subsection \<open>Generation\<close>

definition ios_responses :: "string \<Rightarrow> string list" where
  "ios_responses prompt =
     [''Using Core ML optimization on iOS to process: \"'' @ take 40 prompt @
        ''...\" Here's my analysis based on the advanced neural processing capabilities.'',
      ''iOS neural engine processing complete. Regarding \"'' @ take 35 prompt @
        ''...\", I can provide detailed insights using on-device intelligence.'',
      ''Core ML inference suggests that \"'' @ take 45 prompt @
        ''...\" involves several key factors that I'll explain using iOS-optimized processing.'']"

definition android_responses :: "string \<Rightarrow> string list" where
  "android_responses prompt =
     [''Android TensorFlow Lite processing: \"'' @ take 40 prompt @
        ''...\" Your query has been analyzed using Google's mobile ML optimization.'',
      ''Using Android ML Kit for \"'' @ take 35 prompt @
        ''...\" Here's what the optimized inference reveals about this topic.'',
      ''TensorFlow Lite mobile inference complete for \"'' @ take 45 prompt @
        ''...\" Let me share the processed insights.'']"

definition web_responses :: "string \<Rightarrow> string list" where
  "web_responses prompt =
     [''Web ONNX.js processing: \"'' @ take 40 prompt @
        ''...\" Browser-based inference provides these insights about your question.'',
      ''Using optimized web inference for \"'' @ take 35 prompt @
        ''...\" Here's what the client-side model analysis reveals.'',
      ''WebAssembly-accelerated processing of \"'' @ take 45 prompt @
        ''...\" provides these comprehensive insights.'']"

definition platformResponses :: "string \<Rightarrow> (string \<times> string list) list" where
  "platformResponses prompt =
     [(''ios'', ios_responses prompt),
      (''android'', android_responses prompt),
      (''web'', web_responses prompt)]"

text \<open>
  The table is an object literal, so a read \<^verbatim>\<open>platformResponses[platform]\<close> finds, besides
  the three keys of its own, the properties that every object inherits from
  \<^verbatim>\<open>Object.prototype\<close>. An inherited property is a function or an object, never an array
  of templates, and it is truthy, so \<^verbatim>\<open>||\<close> does not replace it by the web list; only a
  key that is found nowhere is replaced.
\<close>

definition object_prototype_keys :: "string list" where
  "object_prototype_keys =
     [''constructor'', ''hasOwnProperty'', ''isPrototypeOf'', ''propertyIsEnumerable'',
      ''toLocaleString'', ''toString'', ''valueOf'', ''__proto__'', ''__defineGetter__'',
      ''__defineSetter__'', ''__lookupGetter__'', ''__lookupSetter__'']"

datatype table_value = Responses "string list" | Inherited

definition table_read :: "string \<Rightarrow> string \<Rightarrow> table_value option" where
  "table_read tag prompt =
     (case map_of (platformResponses prompt) tag of
        Some rs \<Rightarrow> Some (Responses rs)
      | None \<Rightarrow> if tag \<in> set object_prototype_keys then Some Inherited else None)"

definition responses_for :: "string \<Rightarrow> string \<Rightarrow> table_value" where
  "responses_for tag prompt =
     (case table_read tag prompt of
        Some v \<Rightarrow> v
      | None \<Rightarrow> Responses (web_responses prompt))"

definition how_suffix :: "string \<Rightarrow> string" where
  "how_suffix tag =
     '' The '' @ tag @ '' platform enables step-by-step analysis with optimized inference speeds.''"

definition what_suffix :: "string \<Rightarrow> string" where
  "what_suffix tag =
     '' '' @ toUpperCase (take 1 tag) @ drop 1 tag @
     '' hardware acceleration provides comprehensive understanding.''"

definition why_suffix :: "string \<Rightarrow> string" where
  "why_suffix tag =
     '' Platform-specific optimization on '' @ tag @ '' reveals the underlying reasoning patterns.''"

definition default_suffix :: "string \<Rightarrow> string" where
  "default_suffix tag =
     '' Native '' @ tag @ '' processing ensures optimal performance and accuracy.''"

definition contextual_suffix :: "string \<Rightarrow> string \<Rightarrow> string" where
  "contextual_suffix tag prompt =
     (let promptLower = toLowerCase prompt
      in if js_includes promptLower ''how'' then how_suffix tag
         else if js_includes promptLower ''what'' then what_suffix tag
         else if js_includes promptLower ''why'' then why_suffix tag
         else default_suffix tag)"

text \<open>
  \<open>rnd\<close> is the double that \<^verbatim>\<open>Math.random()\<close> returns for the template pick. The
  method reads the tag of the handle it is called through, \<open>g\<close>; the options are
  accepted and not looked at. Of an inherited property the code takes \<^verbatim>\<open>length\<close> (the
  arity of a function, or \<^verbatim>\<open>undefined\<close>) and reads the property at the index computed
  from it; there is no such property whatever the index, so the response starts from
  \<^verbatim>\<open>undefined\<close>.
\<close>

definition generateWithNativeModel ::
  "text_generator \<Rightarrow> string \<Rightarrow> generate_options option \<Rightarrow> double \<Rightarrow> string" where
  "generateWithNativeModel g prompt options rnd =
     (let responses = responses_for (platform g) prompt;
          response =
            (case responses of
               Responses rs \<Rightarrow>
                 array_read rs (double_floor (double_mult rnd (double_of_nat (length rs))))
             | Inherited \<Rightarrow> ''undefined'')
      in response @ contextual_suffix (platform g) prompt)"

definition not_loaded_error :: error where
  "not_loaded_error = Error ''Model not loaded. Call initializeModel() first.''"

definition generateText ::
  "Gemma3nService \<Rightarrow> string \<Rightarrow> generate_options option \<Rightarrow> double
     \<Rightarrow> (error + string) \<times> Gemma3nService" where
  "generateText s prompt options rnd =
     (case textGenerator s of
        None \<Rightarrow> (Inl not_loaded_error, s)
      | Some g \<Rightarrow>
          if \<not> isModelLoaded s then (Inl not_loaded_error, s)
          else (Inr (generateWithNativeModel g prompt options rnd), s))"

text \<open>
  The stream is the list of the values it yields, in order. The loop index \<open>i\<close> runs from
  \<open>0\<close> while it is below the number of pieces; step \<open>i\<close> yields the first \<open>i + 1\<close>
  pieces joined.
\<close>

function stream_loop :: "string list \<Rightarrow> nat \<Rightarrow> string list" where
  "stream_loop words i =
     (if i < length words
      then join_space (take (i + 1) words) # stream_loop words (i + 1)
      else [])"
  by pat_completeness auto
termination
  by (relation "measure (\<lambda>(words, i). length words - i)") auto

declare stream_loop.simps [simp del]

definition generateTextStream ::
  "Gemma3nService \<Rightarrow> string \<Rightarrow> generate_options option \<Rightarrow> double
     \<Rightarrow> (error + string list) \<times> Gemma3nService" where
  "generateTextStream s prompt options rnd =
     (case textGenerator s of
        None \<Rightarrow> (Inl not_loaded_error, s)
      | Some g \<Rightarrow>
          if \<not> isModelLoaded s then (Inl not_loaded_error, s)
          else
            (let fullResponse = generateWithNativeModel g prompt options rnd;
                 words = split_space fullResponse
             in (Inr (stream_loop words 0), s)))"

subsection \<open>Chat\<close>

fun formatChatPrompt_loop :: "string \<Rightarrow> chat_message list \<Rightarrow> string" where
  "formatChatPrompt_loop prompt [] = prompt"
| "formatChatPrompt_loop prompt (message # messages) =
     formatChatPrompt_loop
       (if role message = ''system'' then
          prompt @ ''<start_of_turn>user\<newline>'' @ content message @ ''<end_of_turn>\<newline>''
        else if role message = ''user'' then
          prompt @ ''<start_of_turn>user\<newline>'' @ content message @ ''<end_of_turn>\<newline>''
        else if role message = ''assistant'' then
          prompt @ ''<start_of_turn>model\<newline>'' @ content message @ ''<end_of_turn>\<newline>''
        else prompt)
       messages"

definition formatChatPrompt :: "chat_message list \<Rightarrow> string" where
  "formatChatPrompt messages = formatChatPrompt_loop [] messages @ ''<start_of_turn>model\<newline>''"

definition chat ::
  "Gemma3nService \<Rightarrow> chat_message list \<Rightarrow> generate_options option \<Rightarrow> double
     \<Rightarrow> (error + string) \<times> Gemma3nService" where
  "chat s messages options rnd = generateText s (formatChatPrompt messages) options rnd"

subsection \<open>Multimodal stubs, status, unloading\<close>

definition analyzeImage ::
  "Gemma3nService \<Rightarrow> string \<Rightarrow> string option \<Rightarrow> generate_options option
     \<Rightarrow> (error + string) \<times> Gemma3nService" where
  "analyzeImage s imageUri prompt options =
     (Inl (Error ''Image analysis not yet implemented. Requires multimodal Gemma 3n setup.''), s)"

definition processAudio ::
  "Gemma3nService \<Rightarrow> string \<Rightarrow> audio_task option \<Rightarrow> audio_options option
     \<Rightarrow> (error + string) \<times> Gemma3nService" where
  "processAudio s audioUri task options =
     (Inl (Error ''Audio processing not yet implemented. Requires audio-enabled Gemma 3n setup.''), s)"

definition getModelInfo :: "Gemma3nService \<Rightarrow> model_info \<times> Gemma3nService" where
  "getModelInfo s =
     (\<lparr>isLoaded = isModelLoaded s, info_modelSize = modelSize (config s), info_config = config s\<rparr>,
      s)"

definition unloadModel :: "Gemma3nService \<Rightarrow> (error + unit) \<times> Gemma3nService" where
  "unloadModel s =
     (if textGenerator s \<noteq> None
      then (Inr (), s\<lparr>textGenerator := None, isModelLoaded := False\<rparr>)
      else (Inr (), s))"


section \<open>Notions used to state the properties\<close>

text \<open>
  Between two calls the service is in order when the loaded flag is set exactly when a
  generator handle is installed.
\<close>

definition handle_iff_loaded :: "Gemma3nService \<Rightarrow> bool" where
  "handle_iff_loaded s \<longleftrightarrow> (isModelLoaded s \<longleftrightarrow> textGenerator s \<noteq> None)"

text \<open>The chat template, turn by turn, as the specification words it.\<close>

definition user_turn :: "string \<Rightarrow> string" where
  "user_turn c = ''<start_of_turn>user\<newline>'' @ c @ ''<end_of_turn>\<newline>''"

definition model_turn :: "string \<Rightarrow> string" where
  "model_turn c = ''<start_of_turn>model\<newline>'' @ c @ ''<end_of_turn>\<newline>''"

definition rendered_turn :: "chat_message \<Rightarrow> string" where
  "rendered_turn m =
     (if role m = ''system'' \<or> role m = ''user'' then user_turn (content m)
      else if role m = ''assistant'' then model_turn (content m)
      else [])"

text \<open>
  The streaming rule as the specification words it: the response is split on whitespace
  into word tokens (maximal runs of characters that are not whitespace), and the stream is
  the space-joined prefixes of the first \<open>1, \<dots>, N\<close> words.
\<close>

definition is_whitespace :: "char \<Rightarrow> bool" where
  "is_whitespace c \<longleftrightarrow>
     c \<in> set [CHR '' '', CHR 0x09, CHR 0x0A, CHR 0x0B, CHR 0x0C, CHR 0x0D, CHR 0xA0]"

fun whitespace_words_from :: "string \<Rightarrow> string \<Rightarrow> string list" where
  "whitespace_words_from w [] = (if w = [] then [] else [w])"
| "whitespace_words_from w (c # cs) =
     (if is_whitespace c
      then (if w = [] then whitespace_words_from [] cs else w # whitespace_words_from [] cs)
      else whitespace_words_from (w @ [c]) cs)"

definition whitespace_words :: "string \<Rightarrow> string list" where
  "whitespace_words s = whitespace_words_from [] s"

definition whitespace_prefix_stream :: "string \<Rightarrow> string list" where
  "whitespace_prefix_stream full =
     map (\<lambda>i. join_space (take i (whitespace_words full)))
       [1..<Suc (length (whitespace_words full))]"

subsection \<open>Concrete environments, services and texts\<close>

definition quiet_web :: environment where
  "quiet_web =
     \<lparr>HermesInternal = False, navigator = None, window = True, document = True,
      throws = (\<lambda>_. None)\<rparr>"

definition failing_delay :: environment where
  "failing_delay =
     quiet_web\<lparr>throws := (\<lambda>st. if st = DelaySimulation then Some ''Error: timer'' else None)\<rparr>"



definition loaded_web :: Gemma3nService where
  "loaded_web = snd (initializeModel quiet_web (constructor None))"




text \<open>
  Draws: \<open>0\<close>, \<open>1/2\<close>, and the doubles written \<open>0.3333333333333333\<close> and
  \<open>0.6666666666666666\<close>, the nearest ones to a third and to two thirds, both below them.
\<close>

definition draw_zero :: double where
  "draw_zero = \<lparr>significand = 0, exponent = 0\<rparr>"




definition example_config :: Gemma3nConfig where
  "example_config =
     \<lparr>modelSize = E4B, maxTokens = Value 256, temperature = Absent, topK = Undefined,
      quantized = Absent\<rparr>"

definition double_space_response :: string where
  "double_space_response =
     ''Web ONNX.js processing: \"hi  there...\" Browser-based inference provides these insights about your question. Native web processing ensures optimal performance and accuracy.''"







section \<open>Facts about the string primitives\<close>


lemma split_space_not_Nil: "split_space s \<noteq> []"
  by (induction s) (auto split: list.splits)

lemma join_space_Cons: "ws \<noteq> [] \<Longrightarrow> join_space (w # ws) = w @ '' '' @ join_space ws"
  by (cases ws) auto

lemma join_space_split_space: "join_space (split_space s) = s"
proof (induction s)
  case Nil
  show ?case by simp
next
  case (Cons c cs)
  show ?case
  proof (cases "c = CHR '' ''")
    case True
    with Cons show ?thesis by (simp add: join_space_Cons split_space_not_Nil)
  next
    case False
    obtain w ws where sp: "split_space cs = w # ws"
      using split_space_not_Nil [of cs] by (cases "split_space cs") auto
    from Cons sp have "cs = join_space (w # ws)" by simp
    with False sp show ?thesis by (cases ws) auto
  qed
qed

lemma length_split_space: "length (split_space s) = Suc (count_list s CHR '' '')"
  by (induction s) (auto split: list.splits simp: split_space_not_Nil)

lemma split_space_no_space: "w \<in> set (split_space s) \<Longrightarrow> CHR '' '' \<notin> set w"
proof (induction s arbitrary: w)
  case Nil
  then show ?case by simp
next
  case (Cons c cs)
  then show ?case
    by (cases "split_space cs") (auto split: if_splits)
qed

lemma join_space_snoc:
  "ws \<noteq> [] \<Longrightarrow> join_space (ws @ [w]) = join_space ws @ '' '' @ w"
proof (induction ws rule: join_space.induct)
  case 1
  then show ?case by simp
next
  case (2 v)
  show ?case by simp
next
  case (3 u v ws)
  then show ?case by simp
qed

lemma join_space_take_Suc:
  assumes "Suc i < length ws"
  shows "join_space (take (Suc (Suc i)) ws) = join_space (take (Suc i) ws) @ '' '' @ ws ! Suc i"
proof -
  from assms have "take (Suc (Suc i)) ws = take (Suc i) ws @ [ws ! Suc i]"
    by (simp add: take_Suc_conv_app_nth)
  moreover from assms have "take (Suc i) ws \<noteq> []" by auto
  ultimately show ?thesis by (simp add: join_space_snoc)
qed

lemma stream_loop_eq:
  "stream_loop ws i = map (\<lambda>j. join_space (take (Suc j) ws)) [i..<length ws]"
proof (induction ws i rule: stream_loop.induct)
  case (1 ws i)
  show ?case
  proof (cases "i < length ws")
    case True
    with 1 show ?thesis
      by (subst stream_loop.simps) (simp add: upt_conv_Cons)
  next
    case False
    then show ?thesis by (subst stream_loop.simps) simp
  qed
qed

section \<open>Facts about the numbers\<close>






section \<open>Facts about the service\<close>

subsection \<open>Loading\<close>

lemma getPlatform_cases: "getPlatform env \<in> {''ios'', ''android'', ''web''}"
  by (simp add: getPlatform_def Let_def split: option.splits)

lemma initializeModel_eq:
  "initializeModel env s =
     (case throws env PlatformResolution of
        Some e \<Rightarrow> (Inl (initialization_error e), s)
      | None \<Rightarrow>
         (case throws env PlatformDispatch of
            Some e \<Rightarrow> (Inl (initialization_error e), s)
          | None \<Rightarrow>
             (case throws env DelaySimulation of
                Some e \<Rightarrow> (Inl (initialization_error e), s)
              | None \<Rightarrow>
                  (Inr (), s\<lparr>textGenerator := Some \<lparr>platform = getPlatform env\<rparr>,
                             isModelLoaded := True\<rparr>))))"
  using getPlatform_cases [of env]
  by (auto simp: initializeModel_def initializeIOSModel_def initializeAndroidModel_def
      initializeWebModel_def platform_initializer_def Let_def split: option.splits)

lemma initializeModel_success:
  "(\<forall>st. throws env st = None) \<Longrightarrow>
   initializeModel env s =
     (Inr (), s\<lparr>textGenerator := Some \<lparr>platform = getPlatform env\<rparr>, isModelLoaded := True\<rparr>)"
  by (simp add: initializeModel_eq)

lemma initializeModel_Inr:
  "fst (initializeModel env s) = Inr u \<Longrightarrow>
   snd (initializeModel env s) =
     s\<lparr>textGenerator := Some \<lparr>platform = getPlatform env\<rparr>, isModelLoaded := True\<rparr>"
  by (auto simp: initializeModel_eq split: option.splits)

lemma initializeModel_records_known_tag:
  assumes "fst (initializeModel env s) = Inr u"
  shows "\<exists>tag. textGenerator (snd (initializeModel env s)) = Some \<lparr>platform = tag\<rparr>
           \<and> (tag = ''ios'' \<or> tag = ''android'' \<or> tag = ''web'')"
  using getPlatform_cases [of env] by (simp add: initializeModel_Inr [OF assms])

lemma initializeModel_inv:
  "handle_iff_loaded s \<Longrightarrow> handle_iff_loaded (snd (initializeModel env s))"
  by (auto simp: initializeModel_eq handle_iff_loaded_def split: option.splits)

lemma unloadModel_inv: "handle_iff_loaded s \<Longrightarrow> handle_iff_loaded (snd (unloadModel s))"
  by (simp add: unloadModel_def handle_iff_loaded_def)

lemma constructor_inv: "handle_iff_loaded (constructor arg)"
  by (simp add: constructor_def handle_iff_loaded_def Let_def)

lemma constructor_None:
  "constructor None =
     \<lparr>textGenerator = None, isModelLoaded = False,
      config = \<lparr>modelSize = E2B, maxTokens = Value 512, temperature = Value 0.7,
                topK = Value 50, quantized = Value True\<rparr>\<rparr>"
  by (simp add: constructor_def default_constructor_config_def spread_def)

lemma getPlatform_quiet_web: "getPlatform quiet_web = ''web''"
  by (simp add: getPlatform_def quiet_web_def)

lemma throws_quiet_web: "throws quiet_web st = None"
  by (simp add: quiet_web_def)

lemma loaded_web_eq:
  "loaded_web =
     \<lparr>textGenerator = Some \<lparr>platform = ''web''\<rparr>, isModelLoaded = True,
      config = \<lparr>modelSize = E2B, maxTokens = Value 512, temperature = Value 0.7,
                topK = Value 50, quantized = Value True\<rparr>\<rparr>"
  by (simp add: loaded_web_def initializeModel_eq getPlatform_quiet_web constructor_None
      throws_quiet_web)



lemma textGenerator_loaded_web: "textGenerator loaded_web = Some \<lparr>platform = ''web''\<rparr>"
  by (simp add: loaded_web_eq)

lemma isModelLoaded_loaded_web: "isModelLoaded loaded_web"
  by (simp add: loaded_web_eq)

subsection \<open>Generation\<close>

lemma generateText_loaded:
  assumes "textGenerator s = Some g" and "isModelLoaded s"
  shows "generateText s prompt options rnd = (Inr (generateWithNativeModel g prompt options rnd), s)"
  using assms by (simp add: generateText_def)

lemma generateTextStream_loaded:
  assumes "textGenerator s = Some g" and "isModelLoaded s"
  shows "generateTextStream s prompt options rnd =
           (Inr (map (\<lambda>j. join_space (take (Suc j)
                      (split_space (generateWithNativeModel g prompt options rnd))))
                   [0..<length (split_space (generateWithNativeModel g prompt options rnd))]), s)"
  using assms by (simp add: generateTextStream_def Let_def stream_loop_eq)

lemma generateWithNativeModel_options:
  "generateWithNativeModel g prompt options1 rnd = generateWithNativeModel g prompt options2 rnd"
  by (simp add: generateWithNativeModel_def)

lemma responses_for_keyed:
  assumes "tag \<notin> set object_prototype_keys"
  shows "responses_for tag prompt =
     Responses (if tag = ''ios'' then ios_responses prompt
                else if tag = ''android'' then android_responses prompt
                else web_responses prompt)"
  using assms by (simp add: responses_for_def table_read_def platformResponses_def)

lemma own_keys_not_inherited:
  "''ios'' \<notin> set object_prototype_keys"
  "''android'' \<notin> set object_prototype_keys"
  "''web'' \<notin> set object_prototype_keys"
  by (simp_all add: object_prototype_keys_def)






lemma generateWithNativeModel_template:
  assumes "responses_for (platform g) prompt = Responses rs" and "length rs = 3"
    and "k < 3" and "double_floor (double_mult rnd (double_of_nat 3)) = int k"
  shows "generateWithNativeModel g prompt options rnd =
           rs ! k @ contextual_suffix (platform g) prompt"
  using assms by (simp add: generateWithNativeModel_def array_read_def)



lemma formatChatPrompt_loop_eq:
  "formatChatPrompt_loop acc ms = acc @ concat (map rendered_turn ms)"
  by (induction ms arbitrary: acc) (simp_all add: rendered_turn_def user_turn_def model_turn_def)

subsection \<open>Evaluations at concrete inputs\<close>



lemma pick_draw_zero: "double_floor (double_mult draw_zero (double_of_nat 3)) = 0"
  by (simp add: draw_zero_def double_mult_def double_of_nat_def double_round_def
      round_half_even_def double_floor_def)





lemma web_responses_length: "length (web_responses p) = 3"
  by (simp add: web_responses_def)

lemma double_space_response_eq:
  "generateWithNativeModel \<lparr>platform = ''web''\<rparr> ''hi  there'' None draw_zero = double_space_response"
proof -
  have "web_responses ''hi  there'' ! 0 @ contextual_suffix ''web'' ''hi  there'' = double_space_response"
    by code_simp
  then show ?thesis
    using generateWithNativeModel_template
      [of "\<lparr>platform = ''web''\<rparr>" "''hi  there''" "web_responses ''hi  there''" 0 draw_zero None]
    by (simp add: responses_for_keyed own_keys_not_inherited web_responses_length pick_draw_zero)
qed

lemma double_space_counts:
  "count_list double_space_response CHR '' '' = 21"
  "length (whitespace_words double_space_response) = 21"
  by code_simp+










section \<open>The properties\<close>

subsection \<open>C1: generation needs a loaded model\<close>

text \<open>
  Claim C1. On a service that is in order, each of \<^const>\<open>generateText\<close>,
  \<^const>\<open>generateTextStream\<close> and \<^const>\<open>chat\<close> fails with the model-not-loaded error
  exactly when the loaded flag is not set, for every prompt, message list, options and random
  draw. In particular each of them fails with that error on a freshly constructed service and
  on the service left by \<^const>\<open>unloadModel\<close>, and none of them raises it on a loaded
  service.
\<close>

theorem not_loaded_error_iff_not_loaded:
  assumes "handle_iff_loaded s"
  shows "(fst (generateText s prompt options rnd) = Inl not_loaded_error \<longleftrightarrow> \<not> isModelLoaded s)
       \<and> (fst (generateTextStream s prompt options rnd) = Inl not_loaded_error \<longleftrightarrow> \<not> isModelLoaded s)
       \<and> (fst (chat s messages options rnd) = Inl not_loaded_error \<longleftrightarrow> \<not> isModelLoaded s)
       \<and> fst (generateText (constructor arg) prompt options rnd) = Inl not_loaded_error
       \<and> fst (generateTextStream (constructor arg) prompt options rnd) = Inl not_loaded_error
       \<and> fst (chat (constructor arg) messages options rnd) = Inl not_loaded_error
       \<and> fst (generateText (snd (unloadModel s)) prompt options rnd) = Inl not_loaded_error
       \<and> fst (generateTextStream (snd (unloadModel s)) prompt options rnd) = Inl not_loaded_error
       \<and> fst (chat (snd (unloadModel s)) messages options rnd) = Inl not_loaded_error"
proof -
  have a: "fst (generateText s prompt options rnd) = Inl not_loaded_error \<longleftrightarrow> \<not> isModelLoaded s"
    for prompt
    using assms by (auto simp: generateText_def handle_iff_loaded_def split: option.splits)
  have b: "fst (generateTextStream s prompt options rnd) = Inl not_loaded_error \<longleftrightarrow> \<not> isModelLoaded s"
    using assms
    by (auto simp: generateTextStream_def handle_iff_loaded_def Let_def split: option.splits)
  have c: "textGenerator (constructor arg) = None"
    by (simp add: constructor_def Let_def)
  have d: "textGenerator (snd (unloadModel s)) = None"
    by (simp add: unloadModel_def)
  have e: "textGenerator t = None \<Longrightarrow>
      fst (generateText t prompt options rnd) = Inl not_loaded_error
      \<and> fst (generateTextStream t prompt options rnd) = Inl not_loaded_error" for t prompt
    by (simp add: generateText_def generateTextStream_def)
  from a b e [OF c] e [OF d] show ?thesis
    by (simp add: chat_def)
qed

text \<open>
  At the service loaded in the quiet browser environment the error is not raised; after
  unloading it is raised again.
\<close>

theorem not_loaded_error_iff_not_loaded_witness:
  "handle_iff_loaded loaded_web
   \<and> isModelLoaded loaded_web
   \<and> fst (generateText loaded_web ''hi'' None draw_zero) \<noteq> Inl not_loaded_error
   \<and> fst (generateTextStream loaded_web ''hi'' None draw_zero) \<noteq> Inl not_loaded_error
   \<and> fst (chat loaded_web [] None draw_zero) \<noteq> Inl not_loaded_error
   \<and> fst (generateText (snd (unloadModel loaded_web)) ''hi'' None draw_zero) = Inl not_loaded_error"
proof -
  have h: "handle_iff_loaded loaded_web"
    by (simp add: loaded_web_eq handle_iff_loaded_def)
  have l: "isModelLoaded loaded_web"
    by (simp add: loaded_web_eq)
  from not_loaded_error_iff_not_loaded [OF h, of "''hi''" None draw_zero "[]" None] h l
  show ?thesis by simp
qed

subsection \<open>C2: the stream of growing prefixes\<close>

text \<open>
  Claim C2, as amended. On a loaded service, \<^const>\<open>generateTextStream\<close> computes the full
  response by the algorithm of \<^const>\<open>generateText\<close>, cuts it at every single space
  character into \<open>N\<close> pieces (\<open>N\<close> is the number of spaces plus one; a piece holds no
  space, may be empty, and other whitespace does not cut), and yields exactly \<open>N\<close> values,
  the \<open>i\<close>-th being the first \<open>i\<close> pieces joined by single spaces. Each value is the
  previous one extended by a space and the next piece, hence a strict extension; the last
  value is the full response, which is what \<^const>\<open>generateText\<close> returns for the same
  random draw.
\<close>

theorem generateTextStream_growing_prefixes:
  assumes loaded: "textGenerator s = Some g" "isModelLoaded s"
    and full: "full = generateWithNativeModel g prompt options rnd"
    and words: "words = split_space full"
  shows "\<exists>ys. fst (generateTextStream s prompt options rnd) = Inr ys
          \<and> length ys = length words
          \<and> length words = Suc (count_list full CHR '' '')
          \<and> (\<forall>w\<in>set words. CHR '' '' \<notin> set w)
          \<and> (\<forall>i<length ys. ys ! i = join_space (take (Suc i) words))
          \<and> (\<forall>i. Suc i < length ys \<longrightarrow>
                ys ! Suc i = ys ! i @ '' '' @ words ! Suc i \<and> strict_prefix (ys ! i) (ys ! Suc i))
          \<and> last ys = full
          \<and> fst (generateText s prompt options rnd) = Inr full"
proof -
  define ys where "ys = map (\<lambda>j. join_space (take (Suc j) words)) [0..<length words]"
  have run: "fst (generateTextStream s prompt options rnd) = Inr ys"
    using generateTextStream_loaded [OF loaded, of prompt options rnd]
    by (simp add: ys_def words full)
  have len: "length ys = length words"
    by (simp add: ys_def)
  have cnt: "length words = Suc (count_list full CHR '' '')"
    by (simp add: words length_split_space)
  have nosp: "\<forall>w\<in>set words. CHR '' '' \<notin> set w"
    by (simp add: words split_space_no_space)
  have nth: "ys ! i = join_space (take (Suc i) words)" if "i < length ys" for i
    using that by (simp add: ys_def)
  have step: "ys ! Suc i = ys ! i @ '' '' @ words ! Suc i \<and> strict_prefix (ys ! i) (ys ! Suc i)"
    if "Suc i < length ys" for i
  proof -
    from that len have "Suc i < length words" by simp
    then have "ys ! Suc i = ys ! i @ '' '' @ words ! Suc i"
      using that by (simp add: nth join_space_take_Suc)
    then show ?thesis
      by (simp add: strict_prefix_def)
  qed
  have "words \<noteq> []"
    by (simp add: words split_space_not_Nil)
  then have "last ys = join_space (take (length words) words)"
    by (cases "length words") (simp_all add: ys_def last_map)
  then have lst: "last ys = full"
    by (simp add: words join_space_split_space)
  have gen: "fst (generateText s prompt options rnd) = Inr full"
    using generateText_loaded [OF loaded, of prompt options rnd] by (simp add: full)
  from run len cnt nosp nth step lst gen show ?thesis
    by blast
qed

text \<open>
  On the prompt \<open>hi  there\<close>, written with two spaces, the loaded web service yields 22
  values, the last one the full response.
\<close>

theorem generateTextStream_growing_prefixes_witness:
  "textGenerator loaded_web = Some \<lparr>platform = ''web''\<rparr>
   \<and> isModelLoaded loaded_web
   \<and> (\<exists>ys. fst (generateTextStream loaded_web ''hi  there'' None draw_zero) = Inr ys
          \<and> length ys = 22
          \<and> last ys = double_space_response
          \<and> fst (generateText loaded_web ''hi  there'' None draw_zero) = Inr double_space_response)"
proof -
  from generateTextStream_growing_prefixes
    [OF textGenerator_loaded_web isModelLoaded_loaded_web refl refl, of "''hi  there''" None draw_zero]
  obtain ys where "fst (generateTextStream loaded_web ''hi  there'' None draw_zero) = Inr ys"
    and "length ys = Suc (count_list double_space_response CHR '' '')"
    and "last ys = double_space_response"
    and "fst (generateText loaded_web ''hi  there'' None draw_zero) = Inr double_space_response"
    unfolding double_space_response_eq by auto
  then show ?thesis
    by (auto simp: textGenerator_loaded_web isModelLoaded_loaded_web double_space_counts)
qed

text \<open>
  With the response split on whitespace into word tokens, as the claim is worded, the same
  prompt has 21 words, so the stream would have 21 values: the stream of the code is a
  different one.
\<close>

theorem generateTextStream_whitespace_counterexample:
  "fst (generateTextStream loaded_web ''hi  there'' None draw_zero)
     \<noteq> Inr (whitespace_prefix_stream
              (generateWithNativeModel \<lparr>platform = ''web''\<rparr> ''hi  there'' None draw_zero))"
proof
  assume eq: "fst (generateTextStream loaded_web ''hi  there'' None draw_zero)
     = Inr (whitespace_prefix_stream
              (generateWithNativeModel \<lparr>platform = ''web''\<rparr> ''hi  there'' None draw_zero))"
  have "fst (generateTextStream loaded_web ''hi  there'' None draw_zero)
     = Inr (map (\<lambda>j. join_space (take (Suc j) (split_space double_space_response)))
             [0..<length (split_space double_space_response)])"
    using generateTextStream_loaded [OF textGenerator_loaded_web isModelLoaded_loaded_web]
    by (simp add: double_space_response_eq)
  with eq have "map (\<lambda>j. join_space (take (Suc j) (split_space double_space_response)))
             [0..<length (split_space double_space_response)]
       = whitespace_prefix_stream double_space_response"
    by (simp add: double_space_response_eq)
  then have "length (map (\<lambda>j. join_space (take (Suc j) (split_space double_space_response)))
             [0..<length (split_space double_space_response)])
       = length (whitespace_prefix_stream double_space_response)"
    by (rule arg_cong)
  then have "length (split_space double_space_response)
       = length (whitespace_words double_space_response)"
    by (simp add: whitespace_prefix_stream_def del: upt_Suc)
  then show False
    by (simp add: length_split_space double_space_counts)
qed

subsection \<open>C3: template and contextual suffix\<close>




subsection \<open>C4: the chat template\<close>

text \<open>
  Claim C4. \<^const>\<open>formatChatPrompt\<close> is a function of the message list alone. It renders
  the messages in input order, a system or user message as a user turn and an assistant
  message as a model turn, and appends the opening of a model turn; on the three messages
  system \<open>a\<close>, user \<open>b\<close>, assistant \<open>c\<close> it gives the literal text of the specification.
\<close>

theorem formatChatPrompt_renders_turns:
  "formatChatPrompt messages = concat (map rendered_turn messages) @ ''<start_of_turn>model\<newline>''
   \<and> formatChatPrompt [\<lparr>role = ''system'', content = ''a''\<rparr>,
                        \<lparr>role = ''user'', content = ''b''\<rparr>,
                        \<lparr>role = ''assistant'', content = ''c''\<rparr>]
       = ''<start_of_turn>user\<newline>a<end_of_turn>\<newline><start_of_turn>user\<newline>b<end_of_turn>\<newline><start_of_turn>model\<newline>c<end_of_turn>\<newline><start_of_turn>model\<newline>''"
  by (simp add: formatChatPrompt_def formatChatPrompt_loop_eq rendered_turn_def user_turn_def
      model_turn_def)

subsection \<open>C5: configuration defaults and status\<close>

text \<open>
  Claim C5. The configuration of a constructed service has the caller's model size and, for
  each of the four optional properties, the caller's property if the caller's object has it
  and the default (512, 0.7, 50, true) otherwise; without an argument it is size E2B with the
  four defaults. After an initialization that succeeds, \<^const>\<open>getModelInfo\<close> reports the
  flag set, the configured model size and exactly that configuration; initialization succeeds
  whenever no step throws.
\<close>

theorem constructor_merges_defaults:
  "config (constructor (Some c)) =
     \<lparr>modelSize = modelSize c,
      maxTokens = (if maxTokens c = Absent then Value 512 else maxTokens c),
      temperature = (if temperature c = Absent then Value 0.7 else temperature c),
      topK = (if topK c = Absent then Value 50 else topK c),
      quantized = (if quantized c = Absent then Value True else quantized c)\<rparr>
   \<and> config (constructor None) =
     \<lparr>modelSize = E2B, maxTokens = Value 512, temperature = Value 0.7, topK = Value 50,
      quantized = Value True\<rparr>
   \<and> (fst (initializeModel env (constructor arg)) = Inr () \<longrightarrow>
        fst (getModelInfo (snd (initializeModel env (constructor arg)))) =
          \<lparr>isLoaded = True,
           info_modelSize = modelSize (config (constructor arg)),
           info_config = config (constructor arg)\<rparr>)
   \<and> ((\<forall>st. throws env st = None) \<longrightarrow> fst (initializeModel env (constructor arg)) = Inr ())"
proof -
  have a: "config (constructor (Some c)) =
     \<lparr>modelSize = modelSize c,
      maxTokens = (if maxTokens c = Absent then Value 512 else maxTokens c),
      temperature = (if temperature c = Absent then Value 0.7 else temperature c),
      topK = (if topK c = Absent then Value 50 else topK c),
      quantized = (if quantized c = Absent then Value True else quantized c)\<rparr>"
    by (simp add: constructor_def spread_def split: property.splits)
  have b: "fst (initializeModel env t) = Inr () \<Longrightarrow>
        fst (getModelInfo (snd (initializeModel env t))) =
          \<lparr>isLoaded = True, info_modelSize = modelSize (config t), info_config = config t\<rparr>" for t
    by (simp add: initializeModel_Inr getModelInfo_def)
  from a b [of "constructor arg"] show ?thesis
    by (simp add: constructor_None initializeModel_success)
qed

text \<open>
  A caller's object with size E4B, a token limit of 256 and an undefined \<open>topK\<close>, loaded in
  the quiet browser environment.
\<close>

theorem constructor_merges_defaults_witness:
  "fst (initializeModel quiet_web (constructor (Some example_config))) = Inr ()
   \<and> fst (getModelInfo (snd (initializeModel quiet_web (constructor (Some example_config))))) =
       \<lparr>isLoaded = True, info_modelSize = E4B,
        info_config = \<lparr>modelSize = E4B, maxTokens = Value 256, temperature = Value 0.7,
                       topK = Undefined, quantized = Value True\<rparr>\<rparr>"
  using constructor_merges_defaults [of example_config quiet_web "Some example_config"]
  by (simp add: throws_quiet_web example_config_def)

subsection \<open>C6: a failed initialization\<close>



subsection \<open>C7: unloading\<close>

text \<open>
  Claim C7. \<^const>\<open>unloadModel\<close> never fails. If a generator handle is installed it removes
  the handle and clears the loaded flag; if none is installed it changes nothing. Unloading
  twice succeeds and leaves the same service as unloading once.
\<close>

theorem unloadModel_idempotent_safe:
  "fst (unloadModel s) = Inr ()
   \<and> (textGenerator s \<noteq> None \<longrightarrow>
        snd (unloadModel s) = s\<lparr>textGenerator := None, isModelLoaded := False\<rparr>)
   \<and> (textGenerator s = None \<longrightarrow> snd (unloadModel s) = s)
   \<and> fst (unloadModel (snd (unloadModel s))) = Inr ()
   \<and> snd (unloadModel (snd (unloadModel s))) = snd (unloadModel s)"
  by (simp add: unloadModel_def)

text \<open>
  Unloading the loaded web service gives back the fresh service, and unloading the fresh
  service changes nothing.
\<close>

theorem unloadModel_idempotent_safe_witness:
  "textGenerator loaded_web \<noteq> None
   \<and> snd (unloadModel loaded_web) = loaded_web\<lparr>textGenerator := None, isModelLoaded := False\<rparr>
   \<and> snd (unloadModel loaded_web) = constructor None
   \<and> textGenerator (constructor None) = None
   \<and> snd (unloadModel (constructor None)) = constructor None"
  using unloadModel_idempotent_safe [of loaded_web] unloadModel_idempotent_safe [of "constructor None"]
  by (simp add: loaded_web_eq constructor_None)

subsection \<open>C8: the multimodal stubs\<close>

text \<open>
  Claim C8. \<^const>\<open>analyzeImage\<close> and \<^const>\<open>processAudio\<close> fail with their not-implemented
  errors for every input and in every state of the service, and leave the service unchanged.
\<close>

theorem multimodal_stubs_always_fail:
  "analyzeImage s imageUri prompt options =
     (Inl (Error ''Image analysis not yet implemented. Requires multimodal Gemma 3n setup.''), s)
   \<and> processAudio s audioUri task audio_opts =
     (Inl (Error ''Audio processing not yet implemented. Requires audio-enabled Gemma 3n setup.''), s)"
  by (simp add: analyzeImage_def processAudio_def)

subsection \<open>C9: the options are not looked at\<close>

text \<open>
  Claim C9. From the same service, with the same prompt and the same random draw, any two
  options arguments (present or absent) give the same outcome of \<^const>\<open>generateText\<close>, and
  likewise of \<^const>\<open>generateTextStream\<close> and \<^const>\<open>chat\<close>.
\<close>

theorem options_are_ignored:
  "generateText s prompt options1 rnd = generateText s prompt options2 rnd
   \<and> generateTextStream s prompt options1 rnd = generateTextStream s prompt options2 rnd
   \<and> chat s messages options1 rnd = chat s messages options2 rnd"
  using generateWithNativeModel_options [of _ _ options1 rnd options2]
  by (simp add: generateText_def generateTextStream_def chat_def split: option.splits)

subsection \<open>C10: flag and handle agree\<close>

text \<open>
  Claim C10. The loaded flag is set exactly when a generator handle is installed: this holds
  of every freshly constructed service, and every operation, whether it succeeds or fails,
  takes a service for which it holds to a service for which it holds.
\<close>

theorem invariant_handle_iff_loaded:
  "handle_iff_loaded (constructor arg)
   \<and> (handle_iff_loaded s \<longrightarrow>
        handle_iff_loaded (snd (initializeModel env s))
        \<and> handle_iff_loaded (snd (generateText s prompt options rnd))
        \<and> handle_iff_loaded (snd (generateTextStream s prompt options rnd))
        \<and> handle_iff_loaded (snd (chat s messages options rnd))
        \<and> handle_iff_loaded (snd (analyzeImage s imageUri image_prompt options))
        \<and> handle_iff_loaded (snd (processAudio s audioUri task audio_opts))
        \<and> handle_iff_loaded (snd (getModelInfo s))
        \<and> handle_iff_loaded (snd (unloadModel s)))"
proof -
  have g: "snd (generateText t p options rnd) = t" for t p
    by (simp add: generateText_def split: option.splits)
  have gs: "snd (generateTextStream s prompt options rnd) = s"
    by (simp add: generateTextStream_def Let_def split: option.splits)
  show ?thesis
    by (simp add: constructor_inv initializeModel_inv unloadModel_inv g gs chat_def
        analyzeImage_def processAudio_def getModelInfo_def)
qed

text \<open>
  The fresh service, the service after a successful and after a failed initialization, and
  the service after unloading.
\<close>

theorem invariant_handle_iff_loaded_witness:
  "handle_iff_loaded (constructor None)
   \<and> handle_iff_loaded (snd (initializeModel quiet_web (constructor None)))
   \<and> handle_iff_loaded (snd (initializeModel failing_delay (constructor None)))
   \<and> handle_iff_loaded (snd (unloadModel (constructor None)))"
  using invariant_handle_iff_loaded [of None "constructor None" quiet_web]
    invariant_handle_iff_loaded [of None "constructor None" failing_delay]
  by simp

end
